theory Spec2Isabelle
  imports Complex_Main
begin

text \<open>
  The two programs of the repository: the receiver (receiver.py), an HTTP endpoint that
  classifies the emotion of a message, answers with a fixed supportive text and a risk
  level and logs the exchange in its session state; and the sender (sender.py), which
  posts a message to the receiver and keeps the transcript. Each function is a HOL
  function of the same name: it takes the state it reads and the answers of the world it
  calls (the JSON accessor of Flask, the classifier, the clock, the network) and returns
  its result, the new state and the effects it had.
\<close>

section \<open>Python values\<close>

text \<open>
  A Python float: the finite values are read as reals (the only arithmetic the
  programs do on a score is the comparison with the literal 0.5, which is exact),
  together with the two infinities and NaN.
\<close>

datatype pyfloat = Finite real | PosInf | NegInf | NaN

text \<open>\<open>float_gt a b\<close> is Python's \<^verbatim>\<open>a > b\<close>: every comparison with NaN is False.\<close>

fun float_gt :: "pyfloat \<Rightarrow> pyfloat \<Rightarrow> bool" where
  "float_gt (Finite a) (Finite b) = (b < a)"
| "float_gt (Finite a) NegInf = True"
| "float_gt PosInf (Finite b) = True"
| "float_gt PosInf NegInf = True"
| "float_gt _ _ = False"

text \<open>
  The exceptions the two programs can meet. \<open>ConnectionError\<close> and \<open>Timeout\<close> are
  the two of \<^verbatim>\<open>requests.exceptions\<close>, \<open>RequestException\<close> stands for their base class
  \<^verbatim>\<open>requests.exceptions.RequestException\<close> and its other subclasses, \<open>BadRequest\<close> for
  \<^verbatim>\<open>werkzeug.exceptions.BadRequest\<close>, \<open>OtherException\<close> for any other subclass of
  \<^verbatim>\<open>Exception\<close>.
\<close>

datatype exn =
    AttributeError
  | KeyError
  | TypeError
  | IndexError
  | ConnectionError
  | Timeout
  | RequestException
  | BadRequest
  | OtherException

text \<open>
  \<^verbatim>\<open>isinstance(e, requests.exceptions.RequestException)\<close>: what a clause
  \<^verbatim>\<open>except requests.exceptions.RequestException\<close> catches. Every failure of the network
  inside \<^verbatim>\<open>requests.post\<close> (no connection, a timeout, ...) is raised as such an exception.
\<close>

fun is_request_exception :: "exn \<Rightarrow> bool" where
  "is_request_exception ConnectionError = True"
| "is_request_exception Timeout = True"
| "is_request_exception RequestException = True"
| "is_request_exception _ = False"

text \<open>
  A value decoded from JSON, as Python holds it: \<open>JNull\<close> is \<^verbatim>\<open>None\<close>, an object is a
  dict, kept as an association list that is read through \<open>map_of\<close>.
\<close>

datatype json =
    JNull
  | JBool bool
  | JInt int
  | JFloat pyfloat
  | JStr string
  | JArr "json list"
  | JObj "(string \<times> json) list"

text \<open>Python's truth value of such a value (what \<^verbatim>\<open>not x\<close> negates).\<close>

fun truthy :: "json \<Rightarrow> bool" where
  "truthy JNull = False"
| "truthy (JBool b) = b"
| "truthy (JInt i) = (i \<noteq> 0)"
| "truthy (JFloat f) = (f \<noteq> Finite 0)"
| "truthy (JStr s) = (s \<noteq> [])"
| "truthy (JArr xs) = (xs \<noteq> [])"
| "truthy (JObj kvs) = (kvs \<noteq> [])"

text \<open>\<^verbatim>\<open>x.get(key, default)\<close>: only a dict has the method.\<close>

fun dict_get :: "json \<Rightarrow> string \<Rightarrow> json \<Rightarrow> exn + json" where
  "dict_get (JObj kvs) k d = Inr (case map_of kvs k of None \<Rightarrow> d | Some v \<Rightarrow> v)"
| "dict_get _ k d = Inl AttributeError"

text \<open>\<^verbatim>\<open>x[key]\<close> with a string key: KeyError on a dict without the key, TypeError on
  every other kind of value.\<close>

fun subscript :: "json \<Rightarrow> string \<Rightarrow> exn + json" where
  "subscript (JObj kvs) k = (case map_of kvs k of None \<Rightarrow> Inl KeyError | Some v \<Rightarrow> Inr v)"
| "subscript _ k = Inl TypeError"

text \<open>The same on a dict whose values are strings (the dict \<open>get_response\<close> builds).\<close>

definition str_subscript :: "(string \<times> string) list \<Rightarrow> string \<Rightarrow> exn + string" where
  "str_subscript d k = (case map_of d k of None \<Rightarrow> Inl KeyError | Some v \<Rightarrow> Inr v)"

section \<open>The receiver (receiver.py)\<close>

subsection \<open>The risk policy\<close>

definition high_risk_emotions :: "string list" where
  "high_risk_emotions = [''sadness'', ''fear'', ''grief'']"

text \<open>The two fixed texts of \<open>get_response\<close>, named here; the source writes them in place.\<close>

definition crisis_message :: string where
  "crisis_message =
     ''I hear how much pain you're in, and I want you to know that your life has value. '' @
     ''Please reach out to the crisis helpline immediately at 988 - they are available '' @
     ''24/7 and want to support you. You don't have to go through this alone.''"

definition supportive_message :: string where
  "supportive_message =
     ''Thank you for reaching out. It takes courage to share these feelings. '' @
     ''While I'm here to listen, it's important to connect with mental health '' @
     ''professionals who can provide the support you need.''"

definition get_response :: "string \<Rightarrow> pyfloat \<Rightarrow> (string \<times> string) list" where
  "get_response emotion score =
     (if emotion \<in> set high_risk_emotions \<and> float_gt score (Finite 0.5) then
        [(''message'', crisis_message), (''risk_level'', ''high'')]
      else
        [(''message'', supportive_message), (''risk_level'', ''medium'')])"

subsection \<open>Session state and effects\<close>

text \<open>An instant returned by \<^verbatim>\<open>datetime.now()\<close>; the clock is an input of the model.\<close>

type_synonym datetime = nat

text \<open>
  The classifier pipeline is a black box: called on the message it raises, or returns a
  list of results, each with a label and a score.
\<close>

type_synonym pipeline = "json \<Rightarrow> exn + (string \<times> pyfloat) list"

text \<open>The dict appended to \<^verbatim>\<open>st.session_state.messages\<close>.\<close>

record entry =
  timestamp :: datetime
  client_id :: json
  message :: json
  emotion :: string
  score :: pyfloat
  response :: string

text \<open>The dict appended to \<^verbatim>\<open>st.session_state.emotion_data\<close>.\<close>

record sample =
  s_timestamp :: datetime
  s_emotion :: string
  s_score :: pyfloat
  s_client_id :: json

text \<open>The four keys of \<^verbatim>\<open>st.session_state\<close>.\<close>

record session_state =
  messages :: "entry list"
  emotion_data :: "sample list"
  server_running :: bool
  model :: "pipeline option"

text \<open>
  \<^verbatim>\<open>st.session_state\<close> as the running code finds it. \<open>init_session_state\<close> creates the
  four keys together and nothing removes one, so a session holds all of them (\<open>Keys\<close>)
  or none (\<open>No_keys\<close>); reading a key of a session without keys raises AttributeError.
\<close>

datatype session = No_keys | Keys session_state

text \<open>
  What a call does besides returning and updating the session state, in the order in
  which it does it: lines written through \<^verbatim>\<open>logger\<close> (an error line keeps its fixed text
  and the exception), errors shown through \<^verbatim>\<open>st.error\<close>, the call of the pipeline on a
  text, and the post of a body to a URL.
\<close>

datatype effect =
    Log_info string
  | Log_received json
  | Log_error string exn
  | St_error string
  | St_error_status int
  | St_error_connection exn
  | Model_call json
  | Http_post string "(string \<times> json) list"

text \<open>
  \<open>init_session_state\<close> creates each key only when it is missing: a session without keys
  gets the empty log, an initialised one is left as it is.
\<close>

definition init_session_state :: "session \<Rightarrow> session" where
  "init_session_state ss =
     (case ss of
        No_keys \<Rightarrow>
          Keys \<lparr>messages = [], emotion_data = [], server_running = False, model = None\<rparr>
      | Keys st \<Rightarrow> Keys st)"

text \<open>
  \<open>init_session_state\<close> is called by \<open>main\<close> only, in the thread that runs the script.
  The handler runs in the thread that \<open>main\<close> starts with a plain
  \<^verbatim>\<open>threading.Thread(target=run_server, ...)\<close> (receiver.py:225-230); no script context is
  attached to that thread, and there Streamlit hands out a session state without keys.
\<close>

definition handler_session :: session where
  "handler_session = No_keys"

subsection \<open>Loading and calling the classifier\<close>

text \<open>
  What happens inside \<open>load_model\<close> is decided outside the repository: the cache of
  \<^verbatim>\<open>st.cache_resource\<close> answers, the import of \<^verbatim>\<open>transformers\<close> raises, the
  construction of the pipeline raises, or the pipeline is built.
\<close>

datatype load_outcome =
    Cached "pipeline option"
  | Import_fails exn
  | Pipeline_fails exn
  | Loaded pipeline

definition load_model :: "load_outcome \<Rightarrow> pipeline option \<times> effect list" where
  "load_model env =
     (case env of
        Cached m \<Rightarrow> (m, [])
      | Import_fails e \<Rightarrow>
          (None,
           [Log_error ''Error loading model'' e,
            St_error ''Failed to load the model. Please check your environment setup.''])
      | Pipeline_fails e \<Rightarrow>
          (None,
           [Log_info ''Loading emotion classification model...'',
            Log_error ''Error loading model'' e,
            St_error ''Failed to load the model. Please check your environment setup.''])
      | Loaded m \<Rightarrow>
          (Some m,
           [Log_info ''Loading emotion classification model...'',
            Log_info ''Model loaded successfully'']))"

text \<open>
  The whole body of \<open>analyze_emotions\<close> stands in a \<^verbatim>\<open>try\<close> block. Its first statement
  reads \<^verbatim>\<open>st.session_state.model\<close>: on a session without keys that raises, and the
  \<^verbatim>\<open>except\<close> clause returns the pair unknown, 0.0 before anything is loaded or called.
\<close>

definition analyze_emotions ::
  "load_outcome \<Rightarrow> session \<Rightarrow> json \<Rightarrow> (string \<times> pyfloat) \<times> session \<times> effect list"
where
  "analyze_emotions env ss text =
     (case ss of
        No_keys \<Rightarrow>
          ((''unknown'', Finite 0), No_keys,
           [Log_error ''Error analyzing emotions'' AttributeError])
      | Keys st \<Rightarrow>
          (let (st1, fx1) =
                 (case model st of
                    None \<Rightarrow> (let (m, fx) = load_model env in (st\<lparr>model := m\<rparr>, fx))
                  | Some _ \<Rightarrow> (st, []))
           in case model st1 of
                None \<Rightarrow> ((''unknown'', Finite 0), Keys st1, fx1)
              | Some m \<Rightarrow>
                  (case m text of
                     Inl e \<Rightarrow>
                       ((''unknown'', Finite 0), Keys st1,
                        fx1 @ [Model_call text, Log_error ''Error analyzing emotions'' e])
                   | Inr [] \<Rightarrow>
                       ((''unknown'', Finite 0), Keys st1,
                        fx1 @ [Model_call text,
                               Log_error ''Error analyzing emotions'' IndexError])
                   | Inr (r # _) \<Rightarrow> ((fst r, snd r), Keys st1, fx1 @ [Model_call text]))))"

subsection \<open>The support handler\<close>

text \<open>
  \<^verbatim>\<open>request.json\<close> belongs to Flask, and its outcome is an input: it yields the
  decoded body (\<open>JNull\<close> when Flask hands the handler \<^verbatim>\<open>None\<close>), or it raises. It is
  \<^verbatim>\<open>get_json()\<close> with the default \<^verbatim>\<open>silent=False\<close>, so on a body that it cannot decode
  it raises \<open>BadRequest\<close>; the access stands inside the handler's \<^verbatim>\<open>try\<close> block.
\<close>

type_synonym request_json = "exn + json"

type_synonym http_response = "(string \<times> string) list \<times> nat"

definition internal_error :: "exn \<Rightarrow> session \<Rightarrow> effect list \<Rightarrow>
    http_response \<times> session \<times> effect list" where
  "internal_error e st fx =
     (([(''error'', ''Internal server error'')], 500), st,
      fx @ [Log_error ''Error processing request'' e])"

text \<open>
  After the risk policy the handler appends to \<^verbatim>\<open>st.session_state.messages\<close> and to
  \<^verbatim>\<open>st.session_state.emotion_data\<close>, still inside its \<^verbatim>\<open>try\<close> block: on a session
  without keys the first of the two raises, and the \<^verbatim>\<open>except\<close> clause answers 500.
\<close>

definition receive_message ::
  "request_json \<Rightarrow> load_outcome \<Rightarrow> datetime \<Rightarrow> session \<Rightarrow>
     http_response \<times> session \<times> effect list"
where
  "receive_message req env now ss =
     (case req of
        Inl e \<Rightarrow> internal_error e ss []
      | Inr data \<Rightarrow>
          if \<not> truthy data then (([(''error'', ''No JSON data received'')], 400), ss, [])
          else
            (case dict_get data ''message'' (JStr []) of
               Inl e \<Rightarrow> internal_error e ss []
             | Inr msg \<Rightarrow>
                 (case dict_get data ''client_id'' (JStr ''unknown'') of
                    Inl e \<Rightarrow> internal_error e ss []
                  | Inr cid \<Rightarrow>
                      if \<not> truthy msg then (([(''error'', ''Empty message'')], 400), ss, [])
                      else
                        (let ((em, sc), ss1, fx) = analyze_emotions env ss msg;
                             resp = get_response em sc
                         in case str_subscript resp ''message'' of
                              Inl e \<Rightarrow> internal_error e ss1 (Log_received cid # fx)
                            | Inr text \<Rightarrow>
                                (case ss1 of
                                   No_keys \<Rightarrow>
                                     internal_error AttributeError ss1 (Log_received cid # fx)
                                 | Keys st1 \<Rightarrow>
                                     (let e = \<lparr>timestamp = now, client_id = cid,
                                               message = msg, emotion = em, score = sc,
                                               response = text\<rparr>;
                                          d = \<lparr>s_timestamp = now, s_emotion = em,
                                               s_score = sc, s_client_id = cid\<rparr>;
                                          st2 = st1\<lparr>messages := messages st1 @ [e]\<rparr>;
                                          st3 = st2\<lparr>emotion_data := emotion_data st2 @ [d]\<rparr>
                                      in ((resp, 200), Keys st3, Log_received cid # fx)))))))"

text \<open>
  The listener started by \<open>run_server\<close> hands every request to the handler. \<open>serve\<close>
  takes the requests of a run one after the other, from the session the handler finds;
  each request brings its own inputs (what \<^verbatim>\<open>request.json\<close> yields, what loading the
  model would yield, the instant of the clock). The program as it is served is
  \<open>serve handler_session\<close>.
\<close>

record call =
  call_req :: request_json
  call_env :: load_outcome
  call_now :: datetime

fun serve :: "session \<Rightarrow> call list \<Rightarrow> http_response list \<times> session" where
  "serve ss [] = ([], ss)"
| "serve ss (c # cs) =
     (let (r, ss1, fx) = receive_message (call_req c) (call_env c) (call_now c) ss;
          (rs, ss2) = serve ss1 cs
      in (r # rs, ss2))"

section \<open>The sender (sender.py)\<close>

text \<open>A turn of the transcript; only an assistant turn carries a \<open>risk_level\<close>.\<close>

record turn =
  t_timestamp :: string
  role :: string
  content :: json
  risk_level :: "json option"

text \<open>
  The sender's session state: \<open>c_messages\<close> and \<open>c_client_id\<close> are its keys
  \<^verbatim>\<open>messages\<close> and \<^verbatim>\<open>client_id\<close>.
\<close>

record client_state =
  c_messages :: "turn list"
  c_client_id :: string
  server_url :: "string option"

text \<open>
  The answer to \<^verbatim>\<open>requests.post\<close> is an input: the call raises, or it returns a response
  with a status code and a body on which \<^verbatim>\<open>response.json()\<close> raises or yields a value.
\<close>

type_synonym reply = "int \<times> (exn + json)"

type_synonym network = "string \<Rightarrow> (string \<times> json) list \<Rightarrow> exn + reply"

text \<open>How a call of \<open>send_message\<close> ends: a bare \<^verbatim>\<open>return\<close>, a returned boolean, or an
  exception that leaves the function.\<close>

datatype outcome = Returns_None | Returns bool | Raises exn

text \<open>The \<^verbatim>\<open>except requests.exceptions.RequestException\<close> clause.\<close>

definition except_request ::
  "exn \<Rightarrow> client_state \<Rightarrow> effect list \<Rightarrow> outcome \<times> client_state \<times> effect list" where
  "except_request e st fx =
     (if is_request_exception e then (Returns False, st, fx @ [St_error_connection e])
      else (Raises e, st, fx))"

definition send_message ::
  "network \<Rightarrow> string \<Rightarrow> client_state \<Rightarrow> string \<Rightarrow> outcome \<times> client_state \<times> effect list"
where
  "send_message net now st msg =
     (case server_url st of
        None \<Rightarrow> (Returns_None, st, [St_error ''Server URL not configured''])
      | Some url \<Rightarrow>
          if url = [] then (Returns_None, st, [St_error ''Server URL not configured''])
          else
            (let data = [(''message'', JStr msg), (''client_id'', JStr (c_client_id st))];
                 target = url @ ''/api/support'';
                 fx = [Http_post target data]
             in case net target data of
                  Inl e \<Rightarrow> except_request e st fx
                | Inr (status_code, body) \<Rightarrow>
                    if status_code = 200 then
                      (case body of
                         Inl e \<Rightarrow> except_request e st fx
                       | Inr response_data \<Rightarrow>
                           (let st1 = st\<lparr>c_messages := c_messages st @
                                        [\<lparr>t_timestamp = now, role = ''user'',
                                          content = JStr msg, risk_level = None\<rparr>]\<rparr>
                            in case subscript response_data ''message'' of
                                 Inl e \<Rightarrow> except_request e st1 fx
                               | Inr c \<Rightarrow>
                                   (case subscript response_data ''risk_level'' of
                                      Inl e \<Rightarrow> except_request e st1 fx
                                    | Inr r \<Rightarrow>
                                        (Returns True,
                                         st1\<lparr>c_messages := c_messages st1 @
                                           [\<lparr>t_timestamp = now, role = ''assistant'',
                                             content = c, risk_level = Some r\<rparr>]\<rparr>,
                                         fx))))
                    else (Returns False, st, fx @ [St_error_status status_code])))"

section \<open>Notions used to state the properties\<close>

text \<open>What \<^verbatim>\<open>data.get('message', '')\<close> and \<^verbatim>\<open>data.get('client_id', 'unknown')\<close> yield
  on a dict.\<close>

definition message_field :: "(string \<times> json) list \<Rightarrow> json" where
  "message_field kvs = (case map_of kvs ''message'' of None \<Rightarrow> JStr '''' | Some v \<Rightarrow> v)"

definition client_id_field :: "(string \<times> json) list \<Rightarrow> json" where
  "client_id_field kvs = (case map_of kvs ''client_id'' of None \<Rightarrow> JStr ''unknown'' | Some v \<Rightarrow> v)"


text \<open>
  The classifier fails on a text: no pipeline is held and loading yields none, or calling
  the pipeline (held or just loaded) raises or returns no result.
\<close>

definition call_fails :: "pipeline \<Rightarrow> json \<Rightarrow> bool" where
  "call_fails m t = (case m t of Inl e \<Rightarrow> True | Inr rs \<Rightarrow> rs = [])"

definition classifier_fails :: "load_outcome \<Rightarrow> session_state \<Rightarrow> json \<Rightarrow> bool" where
  "classifier_fails env st t =
     (case model st of
        Some m \<Rightarrow> call_fails m t
      | None \<Rightarrow> (case fst (load_model env) of None \<Rightarrow> True | Some m \<Rightarrow> call_fails m t))"

text \<open>The session log of a session: its entries and its samples; none without keys.\<close>

fun session_log :: "session \<Rightarrow> entry list" where
  "session_log No_keys = []"
| "session_log (Keys st) = messages st"

fun session_samples :: "session \<Rightarrow> sample list" where
  "session_samples No_keys = []"
| "session_samples (Keys st) = emotion_data st"

text \<open>A request passes validation: its body is a dict with a truthy message.\<close>

definition passes_validation :: "request_json \<Rightarrow> bool" where
  "passes_validation rq =
     (case rq of Inr (JObj kvs) \<Rightarrow> truthy (message_field kvs) | _ \<Rightarrow> False)"

text \<open>The sample that belongs to a log entry: its projection kept for the chart.\<close>

definition sample_of :: "entry \<Rightarrow> sample" where
  "sample_of e = \<lparr>s_timestamp = timestamp e, s_emotion = emotion e, s_score = score e,
                  s_client_id = client_id e\<rparr>"

text \<open>The calls of a run that were answered 200, in the order of the run.\<close>

definition accepted :: "call list \<Rightarrow> http_response list \<Rightarrow> call list" where
  "accepted cs rs = map fst (filter (\<lambda>(c, r). snd r = 200) (zip cs rs))"

text \<open>An entry records a call: its instant, and the message and client id of its body.\<close>

definition logged_for :: "call \<Rightarrow> entry \<Rightarrow> bool" where
  "logged_for c e =
     (case call_req c of
        Inr (JObj kvs) \<Rightarrow>
          timestamp e = call_now c \<and> message e = message_field kvs
          \<and> client_id e = client_id_field kvs
      | _ \<Rightarrow> False)"

text \<open>A run of three calls: the first and the third are the same request.\<close>

definition sample_run :: "call list" where
  "sample_run =
     [\<lparr>call_req = Inr (JObj [(''message'', JStr ''I feel hopeless''), (''client_id'', JStr ''c1'')]),
       call_env = Loaded (\<lambda>t. Inr [(''sadness'', Finite 0.9)]), call_now = 1\<rparr>,
      \<lparr>call_req = Inr (JObj [(''message'', JStr [])]),
       call_env = Cached None, call_now = 2\<rparr>,
      \<lparr>call_req = Inr (JObj [(''message'', JStr ''I feel hopeless''), (''client_id'', JStr ''c1'')]),
       call_env = Cached None, call_now = 3\<rparr>]"

text \<open>The body the sender posts, and the two turns it appends after an answer.\<close>

definition post_data :: "client_state \<Rightarrow> string \<Rightarrow> (string \<times> json) list" where
  "post_data st msg = [(''message'', JStr msg), (''client_id'', JStr (c_client_id st))]"

definition user_turn :: "string \<Rightarrow> string \<Rightarrow> turn" where
  "user_turn now msg = \<lparr>t_timestamp = now, role = ''user'', content = JStr msg, risk_level = None\<rparr>"

definition assistant_turn :: "string \<Rightarrow> json \<Rightarrow> json \<Rightarrow> turn" where
  "assistant_turn now c r =
     \<lparr>t_timestamp = now, role = ''assistant'', content = c, risk_level = Some r\<rparr>"

text \<open>
  An answer of the receiver as it reaches the sender: \<^verbatim>\<open>jsonify\<close> writes the dict as a JSON
  object of strings, and \<^verbatim>\<open>response.json()\<close> reads it back.
\<close>

definition wire :: "http_response \<Rightarrow> reply" where
  "wire a = (int (snd a), Inr (JObj (map (\<lambda>(k, v). (k, JStr v)) (fst a))))"

section \<open>The risk policy: properties\<close>

text \<open>
  C1. For every emotion of the high-risk set sadness, fear, grief (exact match) and every
  score strictly greater than 0.5, \<open>get_response\<close> returns the risk level high together
  with the fixed crisis message, and that message contains the emergency number 988.
\<close>

theorem high_risk_response:
  assumes "em \<in> {''sadness'', ''fear'', ''grief''}" and "float_gt sc (Finite 0.5)"
  shows "get_response em sc = [(''message'', crisis_message), (''risk_level'', ''high'')]
         \<and> (\<exists>pre post. crisis_message = pre @ ''988'' @ post)"
proof -
  from assms have "em \<in> set high_risk_emotions \<and> float_gt sc (Finite 0.5)"
    by (simp add: high_risk_emotions_def)
  then have eq: "get_response em sc = [(''message'', crisis_message), (''risk_level'', ''high'')]"
    by (simp add: get_response_def)
  have "crisis_message =
      (''I hear how much pain you're in, and I want you to know that your life has value. '' @
       ''Please reach out to the crisis helpline immediately at '') @ ''988'' @
      ('' - they are available '' @
       ''24/7 and want to support you. You don't have to go through this alone.'')"
    by (simp add: crisis_message_def)
  then show ?thesis using eq by blast
qed

theorem high_risk_response_witness:
  "''grief'' \<in> {''sadness'', ''fear'', ''grief''} \<and> float_gt (Finite 0.9) (Finite 0.5)
   \<and> get_response ''grief'' (Finite 0.9) = [(''message'', crisis_message), (''risk_level'', ''high'')]
   \<and> get_response ''sadness'' PosInf = [(''message'', crisis_message), (''risk_level'', ''high'')]"
  using high_risk_response [of "''grief''" "Finite 0.9"]
        high_risk_response [of "''sadness''" PosInf]
  by simp

text \<open>
  C2. Whenever the high-risk condition fails (the emotion is not one of sadness, fear,
  grief, whatever the score; or the score is not strictly greater than 0.5, so in
  particular at exactly 0.5; or the emotion is unknown or empty), \<open>get_response\<close> returns
  the risk level medium with the fixed supportive message.
\<close>

theorem medium_risk_response:
  assumes "em \<notin> {''sadness'', ''fear'', ''grief''} \<or> \<not> float_gt sc (Finite 0.5)"
  shows "get_response em sc = [(''message'', supportive_message), (''risk_level'', ''medium'')]"
proof -
  from assms have "\<not> (em \<in> set high_risk_emotions \<and> float_gt sc (Finite 0.5))"
    by (auto simp add: high_risk_emotions_def)
  then show ?thesis by (simp add: get_response_def)
qed

theorem medium_risk_response_witness:
  "\<not> float_gt (Finite 0.5) (Finite 0.5)
   \<and> get_response ''sadness'' (Finite 0.5) =
       [(''message'', supportive_message), (''risk_level'', ''medium'')]
   \<and> get_response ''joy'' (Finite 0.99) =
       [(''message'', supportive_message), (''risk_level'', ''medium'')]
   \<and> get_response ''unknown'' (Finite 0) =
       [(''message'', supportive_message), (''risk_level'', ''medium'')]
   \<and> get_response [] (Finite 1) =
       [(''message'', supportive_message), (''risk_level'', ''medium'')]
   \<and> get_response ''Sadness'' (Finite 0.9) =
       [(''message'', supportive_message), (''risk_level'', ''medium'')]
   \<and> get_response ''fear'' NaN =
       [(''message'', supportive_message), (''risk_level'', ''medium'')]"
  using medium_risk_response [of "''sadness''" "Finite 0.5"]
        medium_risk_response [of "''joy''" "Finite 0.99"]
        medium_risk_response [of "''unknown''" "Finite 0"]
        medium_risk_response [of "[]" "Finite 1"]
        medium_risk_response [of "''Sadness''" "Finite 0.9"]
        medium_risk_response [of "''fear''" NaN]
  by simp

section \<open>The support handler: properties\<close>

subsection \<open>The ways a call of the handler ends\<close>

lemma response_message_present:
  "str_subscript (get_response em sc) ''message'' =
     Inr (if em \<in> set high_risk_emotions \<and> float_gt sc (Finite 0.5)
          then crisis_message else supportive_message)"
  by (simp add: str_subscript_def get_response_def)

lemma receive_message_raises:
  "receive_message (Inl e) env now st =
     (([(''error'', ''Internal server error'')], 500), st, [Log_error ''Error processing request'' e])"
  by (simp add: receive_message_def internal_error_def)

lemma receive_message_falsy:
  "\<not> truthy data \<Longrightarrow>
   receive_message (Inr data) env now st = (([(''error'', ''No JSON data received'')], 400), st, [])"
  by (simp add: receive_message_def)

lemma receive_message_not_dict:
  assumes "truthy data" and "\<forall>kvs. data \<noteq> JObj kvs"
  shows "receive_message (Inr data) env now st =
     (([(''error'', ''Internal server error'')], 500), st,
      [Log_error ''Error processing request'' AttributeError])"
proof (cases data)
  case (JObj kvs)
  with assms(2) show ?thesis by simp
qed (use assms(1) in \<open>simp_all add: receive_message_def internal_error_def\<close>)

lemma receive_message_empty:
  assumes "kvs \<noteq> []" and "\<not> truthy (message_field kvs)"
  shows "receive_message (Inr (JObj kvs)) env now st =
     (([(''error'', ''Empty message'')], 400), st, [])"
  using assms by (simp add: receive_message_def message_field_def)

lemma analyze_emotions_no_keys:
  "analyze_emotions env No_keys t =
     ((''unknown'', Finite 0), No_keys, [Log_error ''Error analyzing emotions'' AttributeError])"
  by (simp add: analyze_emotions_def)

lemma analyze_emotions_keys:
  "fst (snd (analyze_emotions env (Keys st) t)) =
     Keys (case model st of None \<Rightarrow> st\<lparr>model := fst (load_model env)\<rparr> | Some m \<Rightarrow> st)"
  by (auto simp add: analyze_emotions_def Let_def
      split: option.splits prod.splits sum.splits list.splits)

lemma analyze_emotions_keys_log:
  assumes "analyze_emotions env (Keys st) t = (p, ss1, fx)"
  obtains st1 where "ss1 = Keys st1" and "messages st1 = messages st"
    and "emotion_data st1 = emotion_data st"
proof -
  from assms have "ss1 = fst (snd (analyze_emotions env (Keys st) t))" by simp
  then have "ss1 =
      Keys (case model st of None \<Rightarrow> st\<lparr>model := fst (load_model env)\<rparr> | Some m \<Rightarrow> st)"
    by (simp only: analyze_emotions_keys)
  then show ?thesis
    using that [of "case model st of None \<Rightarrow> st\<lparr>model := fst (load_model env)\<rparr>
                    | Some m \<Rightarrow> st"]
    by (simp split: option.splits)
qed

lemma receive_message_no_keys:
  assumes "truthy (message_field kvs)"
  shows "receive_message (Inr (JObj kvs)) env now No_keys =
     (([(''error'', ''Internal server error'')], 500), No_keys,
      [Log_received (client_id_field kvs),
       Log_error ''Error analyzing emotions'' AttributeError,
       Log_error ''Error processing request'' AttributeError])"
proof -
  from assms have ne: "kvs \<noteq> []" by (auto simp add: message_field_def)
  show ?thesis using assms ne
    by (simp add: receive_message_def message_field_def client_id_field_def
        analyze_emotions_no_keys response_message_present internal_error_def)
qed

lemma receive_message_keys:
  assumes "truthy (message_field kvs)"
    and "analyze_emotions env (Keys st) (message_field kvs) = ((em, sc), Keys st1, fx)"
  shows "receive_message (Inr (JObj kvs)) env now (Keys st) =
          ((get_response em sc, 200),
           Keys (st1\<lparr>messages := messages st1 @
                  [\<lparr>timestamp = now, client_id = client_id_field kvs,
                    message = message_field kvs, emotion = em, score = sc,
                    response = (if em \<in> set high_risk_emotions \<and> float_gt sc (Finite 0.5)
                                then crisis_message else supportive_message)\<rparr>],
               emotion_data := emotion_data st1 @
                  [\<lparr>s_timestamp = now, s_emotion = em, s_score = sc,
                    s_client_id = client_id_field kvs\<rparr>]\<rparr>),
           Log_received (client_id_field kvs) # fx)"
proof -
  from assms(1) have ne: "kvs \<noteq> []" by (auto simp add: message_field_def)
  show ?thesis using assms ne
    by (simp add: receive_message_def message_field_def client_id_field_def
        response_message_present Let_def)
qed

lemma receive_message_cases:
  obtains
    (raises) e where "rq = Inl e"
      and "receive_message rq env now ss =
             (([(''error'', ''Internal server error'')], 500), ss,
              [Log_error ''Error processing request'' e])"
  | (falsy) data where "rq = Inr data" and "\<not> truthy data"
      and "receive_message rq env now ss =
             (([(''error'', ''No JSON data received'')], 400), ss, [])"
  | (not_dict) data where "rq = Inr data" and "truthy data" and "\<forall>kvs. data \<noteq> JObj kvs"
      and "receive_message rq env now ss =
             (([(''error'', ''Internal server error'')], 500), ss,
              [Log_error ''Error processing request'' AttributeError])"
  | (empty) kvs where "rq = Inr (JObj kvs)" and "kvs \<noteq> []" and "\<not> truthy (message_field kvs)"
      and "receive_message rq env now ss = (([(''error'', ''Empty message'')], 400), ss, [])"
  | (keyless) kvs where "rq = Inr (JObj kvs)" and "kvs \<noteq> []"
      and "truthy (message_field kvs)" and "ss = No_keys"
      and "receive_message rq env now ss =
             (([(''error'', ''Internal server error'')], 500), ss,
              [Log_received (client_id_field kvs),
               Log_error ''Error analyzing emotions'' AttributeError,
               Log_error ''Error processing request'' AttributeError])"
  | (valid) kvs st em sc st1 fx where "rq = Inr (JObj kvs)" and "kvs \<noteq> []"
      and "truthy (message_field kvs)" and "ss = Keys st"
      and "analyze_emotions env (Keys st) (message_field kvs) = ((em, sc), Keys st1, fx)"
      and "messages st1 = messages st" and "emotion_data st1 = emotion_data st"
      and "receive_message rq env now ss =
          ((get_response em sc, 200),
           Keys (st1\<lparr>messages := messages st1 @
                  [\<lparr>timestamp = now, client_id = client_id_field kvs,
                    message = message_field kvs, emotion = em, score = sc,
                    response = (if em \<in> set high_risk_emotions \<and> float_gt sc (Finite 0.5)
                                then crisis_message else supportive_message)\<rparr>],
               emotion_data := emotion_data st1 @
                  [\<lparr>s_timestamp = now, s_emotion = em, s_score = sc,
                    s_client_id = client_id_field kvs\<rparr>]\<rparr>),
           Log_received (client_id_field kvs) # fx)"
proof (cases rq)
  case (Inl e)
  then show ?thesis using raises receive_message_raises by simp
next
  case (Inr data)
  show ?thesis
  proof (cases "truthy data")
    case False
    then show ?thesis using falsy Inr receive_message_falsy by simp
  next
    case True
    show ?thesis
    proof (cases "\<exists>kvs. data = JObj kvs")
      case False
      then show ?thesis using not_dict Inr True receive_message_not_dict by simp
    next
      case ex: True
      then obtain kvs where d: "data = JObj kvs" by blast
      with True have ne: "kvs \<noteq> []" by simp
      show ?thesis
      proof (cases "truthy (message_field kvs)")
        case False
        then show ?thesis using empty Inr d ne receive_message_empty by simp
      next
        case t: True
        show ?thesis
        proof (cases ss)
          case No_keys
          then show ?thesis
            using keyless [OF _ ne t] Inr d receive_message_no_keys [OF t, of env now] by simp
        next
          case (Keys st)
          obtain em sc ss1 fx where
            a: "analyze_emotions env (Keys st) (message_field kvs) = ((em, sc), ss1, fx)"
            by (metis prod.exhaust)
          from a obtain st1 where s1: "ss1 = Keys st1" "messages st1 = messages st"
              "emotion_data st1 = emotion_data st"
            by (rule analyze_emotions_keys_log)
          from a s1(1) have a': "analyze_emotions env (Keys st) (message_field kvs) =
              ((em, sc), Keys st1, fx)" by simp
          show ?thesis
            using valid [OF _ ne t Keys a' s1(2,3)] Inr d Keys
              receive_message_keys [OF t a', of now]
            by simp
        qed
      qed
    qed
  qed
qed

lemma accepted_body:
  assumes "snd (fst (receive_message rq env now ss)) = 200"
  shows "\<exists>m r. fst (fst (receive_message rq env now ss)) = [(''message'', m), (''risk_level'', r)]"
  using assms
  by (cases rule: receive_message_cases [of rq env now ss]) (auto simp add: get_response_def)

subsection \<open>Degraded classifier\<close>

text \<open>
  With the keys of the session in place, a failing classifier is absorbed: the pair
  unknown, 0.0 goes through the risk policy and the answer is 200 with the supportive
  text.
\<close>

lemma degraded_classifier_with_keys:
  assumes "classifier_fails env st (message_field kvs)" and "truthy (message_field kvs)"
  shows "fst (analyze_emotions env (Keys st) (message_field kvs)) = (''unknown'', Finite 0)
         \<and> fst (receive_message (Inr (JObj kvs)) env now (Keys st)) =
             ([(''message'', supportive_message), (''risk_level'', ''medium'')], 200)"
proof -
  have a: "fst (analyze_emotions env (Keys st) (message_field kvs)) = (''unknown'', Finite 0)"
    using assms(1)
    by (auto simp add: classifier_fails_def call_fails_def analyze_emotions_def Let_def
        split: option.splits prod.splits sum.splits list.splits)
  obtain p ss1 fx where
    b: "analyze_emotions env (Keys st) (message_field kvs) = (p, ss1, fx)"
    by (metis prod.exhaust)
  from b obtain st1 where s1: "ss1 = Keys st1" by (rule analyze_emotions_keys_log)
  from a b s1 have c: "analyze_emotions env (Keys st) (message_field kvs) =
      ((''unknown'', Finite 0), Keys st1, fx)" by simp
  have g: "get_response ''unknown'' (Finite 0) =
             [(''message'', supportive_message), (''risk_level'', ''medium'')]"
    by (simp add: get_response_def high_risk_emotions_def)
  from receive_message_keys [OF assms(2) c, of now] g a show ?thesis by simp
qed

text \<open>
  C3. If the classifier fails (the model cannot be loaded, or its invocation fails),
  \<open>analyze_emotions\<close> returns the pair unknown, 0.0 instead of an error, and on a request
  that is otherwise valid (a dict with a truthy message) the handler is to answer 200
  with the medium-risk supportive response, never an HTTP error. As the program is served
  the handler finds a session without keys. There \<open>analyze_emotions\<close> does return the
  pair, whatever loading the model would give: reading the key \<^verbatim>\<open>model\<close> raises inside its
  \<^verbatim>\<open>try\<close> block. But the append to \<^verbatim>\<open>st.session_state.messages\<close> raises in its turn, and
  the handler answers 500 with the error Internal server error.
\<close>

theorem degraded_classifier_served:
  assumes "truthy (message_field kvs)"
  shows "fst (analyze_emotions env handler_session (message_field kvs)) = (''unknown'', Finite 0)
         \<and> receive_message (Inr (JObj kvs)) env now handler_session =
             (([(''error'', ''Internal server error'')], 500), handler_session,
              [Log_received (client_id_field kvs),
               Log_error ''Error analyzing emotions'' AttributeError,
               Log_error ''Error processing request'' AttributeError])"
  unfolding handler_session_def
  using receive_message_no_keys [OF assms, of env now]
  by (simp add: analyze_emotions_no_keys)

theorem degraded_classifier_served_witness:
  "truthy (message_field [(''message'', JStr ''I feel hopeless''), (''client_id'', JStr ''c1'')])
   \<and> fst (receive_message
         (Inr (JObj [(''message'', JStr ''I feel hopeless''), (''client_id'', JStr ''c1'')]))
         (Import_fails OtherException) 0 handler_session) =
     ([(''error'', ''Internal server error'')], 500)"
  using degraded_classifier_served
          [of "[(''message'', JStr ''I feel hopeless''), (''client_id'', JStr ''c1'')]"
              "Import_fails OtherException" 0]
  by (simp add: message_field_def)

subsection \<open>Validation\<close>

text \<open>
  C4. A request whose body is missing or cannot be decoded as JSON is to be answered with
  status 400 and the error No JSON data received. The handler answers so when
  \<^verbatim>\<open>request.json\<close> yields \<^verbatim>\<open>None\<close>. On a body that cannot be decoded \<^verbatim>\<open>request.json\<close> raises
  \<open>BadRequest\<close> instead; the handler's own \<^verbatim>\<open>except\<close> clause catches it, and the answer
  is 500 with the error Internal server error.
\<close>

theorem undecodable_body:
  "receive_message (Inl BadRequest) env now st =
     (([(''error'', ''Internal server error'')], 500), st,
      [Log_error ''Error processing request'' BadRequest])
   \<and> receive_message (Inr JNull) env now st =
     (([(''error'', ''No JSON data received'')], 400), st, [])"
  by (simp add: receive_message_def internal_error_def)

theorem undecodable_body_witness:
  "fst (receive_message (Inl BadRequest) (Cached None) 0 (init_session_state No_keys)) =
     ([(''error'', ''Internal server error'')], 500)"
  using undecodable_body [of "Cached None" 0 "init_session_state No_keys"] by simp

text \<open>
  C5, as stated: every JSON body whose message field is absent or the empty string is
  answered 400 with the error Empty message. The empty object has no message field, and
  it is answered with the error No JSON data received instead.
\<close>

theorem empty_message_counterexample:
  "map_of ([] :: (string \<times> json) list) ''message'' = None
   \<and> fst (receive_message (Inr (JObj [])) (Cached None) 0 (init_session_state No_keys)) \<noteq>
       ([(''error'', ''Empty message'')], 400)"
  by (simp add: receive_message_def)

text \<open>
  C5, amended: every JSON body that is a non-empty object whose message field is absent
  or the empty string is answered 400 with the error Empty message.
\<close>

theorem empty_message:
  assumes "kvs \<noteq> []"
    and "map_of kvs ''message'' = None \<or> map_of kvs ''message'' = Some (JStr '''')"
  shows "receive_message (Inr (JObj kvs)) env now st =
           (([(''error'', ''Empty message'')], 400), st, [])"
proof -
  from assms(2) have "\<not> truthy (message_field kvs)"
    by (auto simp add: message_field_def)
  with assms(1) show ?thesis by (rule receive_message_empty)
qed

theorem empty_message_witness:
  "receive_message (Inr (JObj [(''message'', JStr '''')])) (Cached None) 0
        (init_session_state No_keys) =
     (([(''error'', ''Empty message'')], 400), init_session_state No_keys, [])
   \<and> receive_message (Inr (JObj [(''client_id'', JStr ''c1'')])) (Cached None) 0
        (init_session_state No_keys) =
     (([(''error'', ''Empty message'')], 400), init_session_state No_keys, [])"
  using empty_message [of "[(''message'', JStr '''')]" "Cached None" 0
          "init_session_state No_keys"]
        empty_message [of "[(''client_id'', JStr ''c1'')]" "Cached None" 0
          "init_session_state No_keys"]
  by simp

text \<open>
  The order of the two checks, for every outcome of \<^verbatim>\<open>request.json\<close>: the answer is 400
  No JSON data received exactly when the decoded body is falsy (the object {} included),
  and 400 Empty message exactly when the decoded body is a truthy object whose message
  field is missing or falsy; so {} gets No JSON data received, never Empty message.
\<close>

lemma validation_order:
  "(fst (receive_message rq env now st) = ([(''error'', ''No JSON data received'')], 400))
     = (\<exists>data. rq = Inr data \<and> \<not> truthy data)
   \<and> (fst (receive_message rq env now st) = ([(''error'', ''Empty message'')], 400))
     = (\<exists>kvs. rq = Inr (JObj kvs) \<and> kvs \<noteq> [] \<and>
          (map_of kvs ''message'' = None \<or> (\<exists>v. map_of kvs ''message'' = Some v \<and> \<not> truthy v)))
   \<and> fst (receive_message (Inr (JObj [])) env now st) =
       ([(''error'', ''No JSON data received'')], 400)"
proof -
  have mf: "\<And>kvs. (\<not> truthy (message_field kvs)) =
      (map_of kvs ''message'' = None \<or> (\<exists>v. map_of kvs ''message'' = Some v \<and> \<not> truthy v))"
    by (auto simp add: message_field_def split: option.splits)
  have 1: "(fst (receive_message rq env now st) = ([(''error'', ''No JSON data received'')], 400))
     = (\<exists>data. rq = Inr data \<and> \<not> truthy data)"
    by (cases rule: receive_message_cases [of rq env now st]) auto
  have 2: "(fst (receive_message rq env now st) = ([(''error'', ''Empty message'')], 400))
     = (\<exists>kvs. rq = Inr (JObj kvs) \<and> kvs \<noteq> [] \<and> \<not> truthy (message_field kvs))"
    by (cases rule: receive_message_cases [of rq env now st]) auto
  have 3: "fst (receive_message (Inr (JObj [])) env now st) =
       ([(''error'', ''No JSON data received'')], 400)"
    by (simp add: receive_message_falsy)
  from 1 2 3 show ?thesis unfolding mf by blast
qed

text \<open>
  C10. The handler is to answer 400 No JSON data received exactly when the parsed body is
  falsy, and 400 Empty message exactly when the parsed body is truthy but its message
  field is missing or falsy. For the falsy bodies and for the objects it does
  (\<open>validation_order\<close>). A truthy body that is not an object (an array such as [1], a
  string, a number, true) has no message field either; there \<^verbatim>\<open>data.get\<close> raises
  AttributeError, the handler's own \<^verbatim>\<open>except\<close> clause catches it, and the answer is 500
  with the error Internal server error, not 400 Empty message.
\<close>

theorem non_object_body:
  assumes "truthy data" and "\<forall>kvs. data \<noteq> JObj kvs"
  shows "receive_message (Inr data) env now st =
           (([(''error'', ''Internal server error'')], 500), st,
            [Log_error ''Error processing request'' AttributeError])
         \<and> fst (receive_message (Inr data) env now st) \<noteq> ([(''error'', ''Empty message'')], 400)"
  using receive_message_not_dict [OF assms, of env now st] by simp

theorem non_object_body_witness:
  "truthy (JArr [JInt 1])
   \<and> fst (receive_message (Inr (JArr [JInt 1])) (Cached None) 0 handler_session) =
       ([(''error'', ''Internal server error'')], 500)"
  using non_object_body [of "JArr [JInt 1]" "Cached None" 0 handler_session] by simp

subsection \<open>The session log\<close>

text \<open>
  C7. A request rejected by validation (any answer 400) leaves the session state, and
  so the session log, as it was and has no effect at all; the session changes, the log
  grows and the classifier is called only for a request that passes validation and is
  answered 200.
\<close>

theorem rejected_request_untouched:
  "(snd (fst (receive_message rq env now ss)) = 400 \<longrightarrow>
      snd (receive_message rq env now ss) = (ss, []))
   \<and> (session_log (fst (snd (receive_message rq env now ss))) \<noteq> session_log ss
      \<or> session_samples (fst (snd (receive_message rq env now ss))) \<noteq> session_samples ss
      \<or> fst (snd (receive_message rq env now ss)) \<noteq> ss
      \<or> (\<exists>t. Model_call t \<in> set (snd (snd (receive_message rq env now ss)))) \<longrightarrow>
      snd (fst (receive_message rq env now ss)) = 200
      \<and> (\<exists>kvs. rq = Inr (JObj kvs) \<and> truthy (message_field kvs)))"
  by (cases rule: receive_message_cases [of rq env now ss]) auto

theorem rejected_request_untouched_witness:
  "snd (fst (receive_message (Inr (JObj [(''message'', JStr '''')]))
        (Loaded (\<lambda>t. Inr [(''sadness'', Finite 0.9)])) 3 (init_session_state No_keys))) = 400
   \<and> snd (receive_message (Inr (JObj [(''message'', JStr '''')]))
        (Loaded (\<lambda>t. Inr [(''sadness'', Finite 0.9)])) 3 (init_session_state No_keys)) =
       (init_session_state No_keys, [])
   \<and> snd (receive_message (Inr JNull) (Loaded (\<lambda>t. Inr [(''sadness'', Finite 0.9)])) 3
        handler_session) = (handler_session, [])"
  using rejected_request_untouched [of "Inr (JObj [(''message'', JStr '''')])"
          "Loaded (\<lambda>t. Inr [(''sadness'', Finite 0.9)])" 3 "init_session_state No_keys"]
        rejected_request_untouched [of "Inr JNull"
          "Loaded (\<lambda>t. Inr [(''sadness'', Finite 0.9)])" 3 handler_session]
  by (simp add: receive_message_def)

lemma receive_message_log:
  fixes c :: call and ss :: session
  defines "R \<equiv> receive_message (call_req c) (call_env c) (call_now c) ss"
  shows "\<exists>new. session_log (fst (snd R)) = session_log ss @ new
           \<and> session_samples (fst (snd R)) = session_samples ss @ map sample_of new
           \<and> list_all2 logged_for (if snd (fst R) = 200 then [c] else []) new"
proof (cases rule: receive_message_cases [of "call_req c" "call_env c" "call_now c" ss])
  case (valid kvs st em sc st1 fx)
  let ?e = "\<lparr>timestamp = call_now c, client_id = client_id_field kvs,
             message = message_field kvs, emotion = em, score = sc,
             response = (if em \<in> set high_risk_emotions \<and> float_gt sc (Finite 0.5)
                         then crisis_message else supportive_message)\<rparr>"
  have "session_log (fst (snd R)) = session_log ss @ [?e]"
    and "session_samples (fst (snd R)) = session_samples ss @ map sample_of [?e]"
    and "list_all2 logged_for (if snd (fst R) = 200 then [c] else []) [?e]"
    using valid(1,4,6,7,8) by (simp_all add: R_def sample_of_def logged_for_def)
  then show ?thesis by blast
qed (simp_all add: R_def)

lemma serve_Cons:
  "serve ss (c # cs) =
     (fst (receive_message (call_req c) (call_env c) (call_now c) ss) #
        fst (serve (fst (snd (receive_message (call_req c) (call_env c) (call_now c) ss))) cs),
      snd (serve (fst (snd (receive_message (call_req c) (call_env c) (call_now c) ss))) cs))"
  by (simp add: Let_def split: prod.splits)

lemma accepted_Cons:
  "accepted (c # cs) (r # rs) = (if snd r = 200 then [c] else []) @ accepted cs rs"
  by (simp add: accepted_def)

lemma serve_log:
  "\<exists>new. session_log (snd (serve ss cs)) = session_log ss @ new
     \<and> session_samples (snd (serve ss cs)) = session_samples ss @ map sample_of new
     \<and> list_all2 logged_for (accepted cs (fst (serve ss cs))) new"
proof (induction cs arbitrary: ss)
  case Nil
  show ?case by (simp add: accepted_def)
next
  case (Cons c cs)
  define R where "R = receive_message (call_req c) (call_env c) (call_now c) ss"
  obtain n1 where n1: "session_log (fst (snd R)) = session_log ss @ n1"
      "session_samples (fst (snd R)) = session_samples ss @ map sample_of n1"
      "list_all2 logged_for (if snd (fst R) = 200 then [c] else []) n1"
    using receive_message_log [of c ss] unfolding R_def by blast
  obtain n2 where n2:
      "session_log (snd (serve (fst (snd R)) cs)) = session_log (fst (snd R)) @ n2"
      "session_samples (snd (serve (fst (snd R)) cs)) =
         session_samples (fst (snd R)) @ map sample_of n2"
      "list_all2 logged_for (accepted cs (fst (serve (fst (snd R)) cs))) n2"
    using Cons.IH [of "fst (snd R)"] by blast
  have s: "serve ss (c # cs) =
      (fst R # fst (serve (fst (snd R)) cs), snd (serve (fst (snd R)) cs))"
    unfolding R_def by (rule serve_Cons)
  have "session_log (snd (serve ss (c # cs))) = session_log ss @ (n1 @ n2)"
    unfolding s snd_conv using n1(1) n2(1) by simp
  moreover have "session_samples (snd (serve ss (c # cs))) =
      session_samples ss @ map sample_of (n1 @ n2)"
    unfolding s snd_conv using n1(2) n2(2) by simp
  moreover have "list_all2 logged_for (accepted (c # cs) (fst (serve ss (c # cs)))) (n1 @ n2)"
    unfolding s fst_conv accepted_Cons using n1(3) n2(3) by (rule list_all2_appendI)
  ultimately show ?case by blast
qed

lemma accepted_length:
  "length cs = length rs \<Longrightarrow> length (accepted cs rs) = length (filter (\<lambda>r. snd r = 200) rs)"
proof (induction cs rs rule: list_induct2)
  case Nil
  show ?case by (simp add: accepted_def)
next
  case (Cons c cs r rs)
  then show ?case by (simp add: accepted_Cons)
qed

lemma serve_length: "length (fst (serve ss cs)) = length cs"
  by (induction cs arbitrary: ss) (simp_all add: serve_Cons del: serve.simps(2))

text \<open>
  What the handler does to the log from any session: the log after a run is the log
  before followed by one entry for each request answered 200, in the order of the run,
  each with its sample; nothing is reordered or dropped.
\<close>

lemma serve_appends:
  "\<exists>new. session_log (snd (serve ss cs)) = session_log ss @ new
     \<and> session_samples (snd (serve ss cs)) = session_samples ss @ map sample_of new
     \<and> list_all2 logged_for (accepted cs (fst (serve ss cs))) new
     \<and> length new = length (filter (\<lambda>r. snd r = 200) (fst (serve ss cs)))"
proof -
  obtain new where n: "session_log (snd (serve ss cs)) = session_log ss @ new"
      "session_samples (snd (serve ss cs)) = session_samples ss @ map sample_of new"
      "list_all2 logged_for (accepted cs (fst (serve ss cs))) new"
    using serve_log [of ss cs] by blast
  from n(3) have "length new = length (accepted cs (fst (serve ss cs)))"
    by (simp add: list_all2_lengthD)
  also have "\<dots> = length (filter (\<lambda>r. snd r = 200) (fst (serve ss cs)))"
    by (rule accepted_length) (simp add: serve_length)
  finally have "length new = length (filter (\<lambda>r. snd r = 200) (fst (serve ss cs)))" .
  with n show ?thesis by blast
qed

lemma receive_message_keyless:
  "fst (snd (receive_message rq env now No_keys)) = No_keys
   \<and> snd (fst (receive_message rq env now No_keys)) \<noteq> 200
   \<and> (passes_validation rq \<longrightarrow>
        fst (receive_message rq env now No_keys) =
          ([(''error'', ''Internal server error'')], 500))"
  by (cases rule: receive_message_cases [of rq env now No_keys])
    (auto simp add: passes_validation_def message_field_def split: json.splits)

lemma serve_keyless:
  "snd (serve No_keys cs) = No_keys
   \<and> filter (\<lambda>r. snd r = 200) (fst (serve No_keys cs)) = []
   \<and> list_all2 (\<lambda>c r. passes_validation (call_req c) \<longrightarrow>
                   r = ([(''error'', ''Internal server error'')], 500))
        cs (fst (serve No_keys cs))"
proof (induction cs)
  case Nil
  show ?case by simp
next
  case (Cons c cs)
  define R where "R = receive_message (call_req c) (call_env c) (call_now c) No_keys"
  have k: "fst (snd R) = No_keys" "snd (fst R) \<noteq> 200"
      "passes_validation (call_req c) \<longrightarrow>
         fst R = ([(''error'', ''Internal server error'')], 500)"
    using receive_message_keyless [of "call_req c" "call_env c" "call_now c"]
    unfolding R_def by simp_all
  have s: "serve No_keys (c # cs) = (fst R # fst (serve No_keys cs), snd (serve No_keys cs))"
    using serve_Cons [of No_keys c cs] k(1) unfolding R_def by simp
  show ?case unfolding s using Cons.IH k(2,3) by simp
qed

text \<open>
  C6. The session log is to be append-only and in the order of arrival: after N accepted
  requests, served one after the other, it holds exactly N entries in the order of
  submission, each accepted request adds one entry and one sample with the same
  timestamp, and nothing is reordered or deduplicated. From a session that holds its keys
  the handler does that (\<open>serve_appends\<close>). As the program is served the handler finds a
  session without keys: every request that passes validation is answered 500, no request
  is answered 200, and no entry and no sample is ever logged.
\<close>

theorem served_log_stays_empty:
  "snd (serve handler_session cs) = handler_session
   \<and> session_log (snd (serve handler_session cs)) = []
   \<and> session_samples (snd (serve handler_session cs)) = []
   \<and> filter (\<lambda>r. snd r = 200) (fst (serve handler_session cs)) = []
   \<and> list_all2 (\<lambda>c r. passes_validation (call_req c) \<longrightarrow>
                   r = ([(''error'', ''Internal server error'')], 500))
        cs (fst (serve handler_session cs))"
  unfolding handler_session_def using serve_keyless [of cs] by simp

theorem served_log_stays_empty_witness:
  "map passes_validation (map call_req sample_run) = [True, False, True]
   \<and> map snd (fst (serve handler_session sample_run)) = [500, 400, 500]
   \<and> session_log (snd (serve handler_session sample_run)) = []"
  using served_log_stays_empty [of sample_run]
  by (simp add: sample_run_def handler_session_def passes_validation_def message_field_def
      client_id_field_def receive_message_def analyze_emotions_def get_response_def
      high_risk_emotions_def str_subscript_def internal_error_def)

section \<open>The sender: properties\<close>




text \<open>
  C9. For every send with a configured URL: if the server answers 200, \<open>send_message\<close>
  appends a user turn and an assistant turn to the transcript, the assistant turn tagged
  with the returned risk level, and returns True; if the status is not 200, or a network
  exception occurs, it shows an error, leaves the transcript as it was and returns False.
  The body of an answer 200 holds \<^verbatim>\<open>message\<close> and \<^verbatim>\<open>risk_level\<close>; the second part says so
  for every answer 200 of \<open>receive_message\<close>. A network exception is one that
  \<^verbatim>\<open>requests.post\<close> raises: a \<^verbatim>\<open>RequestException\<close>.
\<close>

theorem configured_send:
  assumes "server_url st = Some url" and "url \<noteq> []"
  shows "(net (url @ ''/api/support'') (post_data st msg) = Inr (200, Inr (JObj kvs))
          \<and> map_of kvs ''message'' = Some c \<and> map_of kvs ''risk_level'' = Some r \<longrightarrow>
            send_message net now st msg =
              (Returns True,
               st\<lparr>c_messages := c_messages st @ [user_turn now msg, assistant_turn now c r]\<rparr>,
               [Http_post (url @ ''/api/support'') (post_data st msg)]))
       \<and> (net (url @ ''/api/support'') (post_data st msg) =
              Inr (wire (fst (receive_message rq env t ss)))
          \<and> snd (fst (receive_message rq env t ss)) = 200 \<longrightarrow>
            (\<exists>m l. fst (fst (receive_message rq env t ss)) =
                      [(''message'', m), (''risk_level'', l)]
               \<and> send_message net now st msg =
                   (Returns True,
                    st\<lparr>c_messages := c_messages st @
                        [user_turn now msg, assistant_turn now (JStr m) (JStr l)]\<rparr>,
                    [Http_post (url @ ''/api/support'') (post_data st msg)])))
       \<and> (net (url @ ''/api/support'') (post_data st msg) = Inr (code, body) \<and> code \<noteq> 200 \<longrightarrow>
            send_message net now st msg =
              (Returns False, st,
               [Http_post (url @ ''/api/support'') (post_data st msg), St_error_status code]))
       \<and> (net (url @ ''/api/support'') (post_data st msg) = Inl e \<and> is_request_exception e \<longrightarrow>
            send_message net now st msg =
              (Returns False, st,
               [Http_post (url @ ''/api/support'') (post_data st msg),
                St_error_connection e]))"
proof -
  have ok: "send_message net now st msg =
              (Returns True,
               st\<lparr>c_messages := c_messages st @ [user_turn now msg, assistant_turn now c' r']\<rparr>,
               [Http_post (url @ ''/api/support'') (post_data st msg)])"
    if "net (url @ ''/api/support'') (post_data st msg) = Inr (200, Inr (JObj kvs'))"
      and "map_of kvs' ''message'' = Some c'" and "map_of kvs' ''risk_level'' = Some r'"
    for kvs' c' r'
    using assms that
    by (simp add: send_message_def post_data_def user_turn_def assistant_turn_def Let_def)
  have from_receiver: "\<exists>m l. fst (fst (receive_message rq env t ss)) =
                      [(''message'', m), (''risk_level'', l)]
               \<and> send_message net now st msg =
                   (Returns True,
                    st\<lparr>c_messages := c_messages st @
                        [user_turn now msg, assistant_turn now (JStr m) (JStr l)]\<rparr>,
                    [Http_post (url @ ''/api/support'') (post_data st msg)])"
    if n: "net (url @ ''/api/support'') (post_data st msg) =
              Inr (wire (fst (receive_message rq env t ss)))"
      and a: "snd (fst (receive_message rq env t ss)) = 200"
  proof -
    from a obtain m l where
      b: "fst (fst (receive_message rq env t ss)) = [(''message'', m), (''risk_level'', l)]"
      using accepted_body by blast
    from n a b have "net (url @ ''/api/support'') (post_data st msg) =
        Inr (200, Inr (JObj [(''message'', JStr m), (''risk_level'', JStr l)]))"
      by (simp add: wire_def)
    then have "send_message net now st msg =
                   (Returns True,
                    st\<lparr>c_messages := c_messages st @
                        [user_turn now msg, assistant_turn now (JStr m) (JStr l)]\<rparr>,
                    [Http_post (url @ ''/api/support'') (post_data st msg)])"
      by (rule ok) simp_all
    with b show ?thesis by blast
  qed
  have bad_status: "send_message net now st msg =
              (Returns False, st,
               [Http_post (url @ ''/api/support'') (post_data st msg), St_error_status code])"
    if "net (url @ ''/api/support'') (post_data st msg) = Inr (code, body)" and "code \<noteq> 200"
    using assms that by (simp add: send_message_def post_data_def Let_def)
  have raised: "send_message net now st msg =
              (Returns False, st,
               [Http_post (url @ ''/api/support'') (post_data st msg),
                St_error_connection e])"
    if "net (url @ ''/api/support'') (post_data st msg) = Inl e" and "is_request_exception e"
    using assms that by (simp add: send_message_def except_request_def post_data_def Let_def)
  from ok from_receiver bad_status raised show ?thesis by blast
qed

theorem configured_send_witness:
  "send_message
      (\<lambda>u d. Inr (200, Inr (JObj [(''message'', JStr ''hi''), (''risk_level'', JStr ''high'')])))
      ''2024-01-01 10:00:00''
      \<lparr>c_messages = [], c_client_id = ''c1'', server_url = Some ''http://localhost:5000''\<rparr>
      ''hello'' =
     (Returns True,
      \<lparr>c_messages =
         [\<lparr>t_timestamp = ''2024-01-01 10:00:00'', role = ''user'', content = JStr ''hello'',
           risk_level = None\<rparr>,
          \<lparr>t_timestamp = ''2024-01-01 10:00:00'', role = ''assistant'', content = JStr ''hi'',
           risk_level = Some (JStr ''high'')\<rparr>],
       c_client_id = ''c1'', server_url = Some ''http://localhost:5000''\<rparr>,
      [Http_post ''http://localhost:5000/api/support''
         [(''message'', JStr ''hello''), (''client_id'', JStr ''c1'')]])
   \<and> send_message (\<lambda>u d. Inr (500, Inr (JObj [(''error'', JStr ''Internal server error'')])))
      ''2024-01-01 10:00:00''
      \<lparr>c_messages = [], c_client_id = ''c1'', server_url = Some ''http://localhost:5000''\<rparr>
      ''hello'' =
     (Returns False,
      \<lparr>c_messages = [], c_client_id = ''c1'', server_url = Some ''http://localhost:5000''\<rparr>,
      [Http_post ''http://localhost:5000/api/support''
         [(''message'', JStr ''hello''), (''client_id'', JStr ''c1'')],
       St_error_status 500])
   \<and> send_message (\<lambda>u d. Inl ConnectionError)
      ''2024-01-01 10:00:00''
      \<lparr>c_messages = [], c_client_id = ''c1'', server_url = Some ''http://localhost:5000''\<rparr>
      ''hello'' =
     (Returns False,
      \<lparr>c_messages = [], c_client_id = ''c1'', server_url = Some ''http://localhost:5000''\<rparr>,
      [Http_post ''http://localhost:5000/api/support''
         [(''message'', JStr ''hello''), (''client_id'', JStr ''c1'')],
       St_error_connection ConnectionError])"
  using configured_send
          [of "\<lparr>c_messages = [], c_client_id = ''c1'', server_url = Some ''http://localhost:5000''\<rparr>"
              "''http://localhost:5000''"
              "\<lambda>u d. Inr (200, Inr (JObj [(''message'', JStr ''hi''), (''risk_level'', JStr ''high'')]))"
              "''hello''" "[(''message'', JStr ''hi''), (''risk_level'', JStr ''high'')]"
              "JStr ''hi''" "JStr ''high''" "''2024-01-01 10:00:00''"]
        configured_send
          [of "\<lparr>c_messages = [], c_client_id = ''c1'', server_url = Some ''http://localhost:5000''\<rparr>"
              "''http://localhost:5000''"
              "\<lambda>u d. Inr (500, Inr (JObj [(''error'', JStr ''Internal server error'')]))"
              "''hello''" _ _ _ "''2024-01-01 10:00:00''" _ _ _ _ 500
              "Inr (JObj [(''error'', JStr ''Internal server error'')])"]
        configured_send
          [of "\<lparr>c_messages = [], c_client_id = ''c1'', server_url = Some ''http://localhost:5000''\<rparr>"
              "''http://localhost:5000''" "\<lambda>u d. Inl ConnectionError"
              "''hello''" _ _ _ "''2024-01-01 10:00:00''" _ _ _ _ _ _ ConnectionError]
  by (simp add: post_data_def user_turn_def assistant_turn_def)

end
